theory Spec2Isabelle
  imports Complex_Main "HOL-Library.Sublist"
begin

section \<open>JavaScript values as server.js sees them\<close>

text \<open>
  server.js works on untyped data: the request body that express parsed, the value
  \<^verbatim>\<open>JSON.parse\<close> returns, the value \<^verbatim>\<open>r.json()\<close> returns. All of it is JSON-shaped:
  primitives, arrays and plain objects. A number is NaN, an infinity or a finite value,
  kept as the rational it denotes (the sign of zero is dropped: no expression of
  server.js tells \<^verbatim>\<open>-0\<close> from \<^verbatim>\<open>0\<close>). A string is a list of code units below 256.
  An object is the list of its own properties in enumeration order, as
  \<^verbatim>\<open>Object.entries\<close> lists them; a key occurs once.
\<close>

datatype jsnum = NaN | PosInf | NegInf | Fin rat

datatype jsval =
    JUndefined
  | JNull
  | JBool bool
  | JNum jsnum
  | JStr string
  | JArr "jsval list"
  | JObj "(string \<times> jsval) list"

text \<open>What a \<^verbatim>\<open>throw\<close> carries: an error object of some class with its message.\<close>

datatype js_error = Error string | TypeError string | SyntaxError string | FetchError string

fun message :: "js_error \<Rightarrow> string" where
  "message (Error m) = m"
| "message (TypeError m) = m"
| "message (SyntaxError m) = m"
| "message (FetchError m) = m"

text \<open>
  The parts of the runtime that server.js calls and that are not written out here:
  \<^verbatim>\<open>JSON.parse\<close> (\<open>Inl\<close> is the message of the SyntaxError it throws), the rounding of
  a numeric literal's exact value to a double, and the digits \<^verbatim>\<open>String\<close> prints for a
  finite number that is not an integer of magnitude up to \<open>2^53\<close> (such an integer is
  printed with its exact decimal digits; beyond, the shortest digits that read back as
  the same double are printed).
\<close>

record platform =
  json_parse :: "string \<Rightarrow> string + jsval"
  round_double :: "rat \<Rightarrow> jsnum"
  number_to_string :: "rat \<Rightarrow> string"

subsection \<open>Truthiness, typeof, property reads\<close>

fun truthy :: "jsval \<Rightarrow> bool" where
  "truthy JUndefined = False"
| "truthy JNull = False"
| "truthy (JBool b) = b"
| "truthy (JNum n) = (n \<noteq> NaN \<and> n \<noteq> Fin 0)"
| "truthy (JStr s) = (s \<noteq> [])"
| "truthy (JArr xs) = True"
| "truthy (JObj kvs) = True"

fun typeof :: "jsval \<Rightarrow> string" where
  "typeof JUndefined = ''undefined''"
| "typeof JNull = ''object''"
| "typeof (JBool b) = ''boolean''"
| "typeof (JNum n) = ''number''"
| "typeof (JStr s) = ''string''"
| "typeof (JArr xs) = ''object''"
| "typeof (JObj kvs) = ''object''"

text \<open>\<^verbatim>\<open>v == null\<close>: true of \<^verbatim>\<open>null\<close> and \<^verbatim>\<open>undefined\<close> only.\<close>

fun nullish :: "jsval \<Rightarrow> bool" where
  "nullish JUndefined = True"
| "nullish JNull = True"
| "nullish v = False"

text \<open>
  \<^verbatim>\<open>v.k\<close> on a value that is neither \<^verbatim>\<open>null\<close> nor \<^verbatim>\<open>undefined\<close>, for the property
  names server.js reads (payload, lines, length, properties, quantity, id, selling_plan,
  attributes, note, data, cartCreate, userErrors, cart, checkoutUrl, message): an own
  property of an object, the length of an array or a string, \<^verbatim>\<open>undefined\<close> otherwise.
  None of these names is inherited from a prototype.
\<close>

fun get_prop :: "jsval \<Rightarrow> string \<Rightarrow> jsval" where
  "get_prop (JObj kvs) k = (case map_of kvs k of Some v \<Rightarrow> v | None \<Rightarrow> JUndefined)"
| "get_prop (JArr xs) k = (if k = ''length'' then JNum (Fin (of_nat (length xs))) else JUndefined)"
| "get_prop (JStr s) k = (if k = ''length'' then JNum (Fin (of_nat (length s))) else JUndefined)"
| "get_prop v k = JUndefined"

text \<open>\<^verbatim>\<open>v?.k\<close>: \<^verbatim>\<open>undefined\<close> when \<open>v\<close> is \<^verbatim>\<open>null\<close> or \<^verbatim>\<open>undefined\<close>.\<close>

definition get_opt :: "jsval \<Rightarrow> string \<Rightarrow> jsval" where
  "get_opt v k = (if nullish v then JUndefined else get_prop v k)"

subsection \<open>String(v)\<close>

fun dec_nat :: "nat \<Rightarrow> string" where
  "dec_nat n = (if n < 10 then [''0123456789'' ! n] else dec_nat (n div 10) @ [''0123456789'' ! (n mod 10)])"

declare dec_nat.simps [simp del]

definition dec_int :: "int \<Rightarrow> string" where
  "dec_int i = (if i < 0 then CHR ''-'' # dec_nat (nat (- i)) else dec_nat (nat i))"

definition num_to_string :: "platform \<Rightarrow> jsnum \<Rightarrow> string" where
  "num_to_string P n =
     (case n of
        NaN \<Rightarrow> ''NaN''
      | PosInf \<Rightarrow> ''Infinity''
      | NegInf \<Rightarrow> ''-Infinity''
      | Fin q \<Rightarrow>
          if of_int \<lfloor>q\<rfloor> = q \<and> \<bar>q\<bar> \<le> 2 ^ 53 then dec_int \<lfloor>q\<rfloor> else number_to_string P q)"

fun join_with :: "string \<Rightarrow> string list \<Rightarrow> string" where
  "join_with sep [] = []"
| "join_with sep [s] = s"
| "join_with sep (s # t # ss) = s @ sep @ join_with sep (t # ss)"

text \<open>
  \<^verbatim>\<open>String(v)\<close>. An array prints its elements joined by commas, \<^verbatim>\<open>null\<close> and
  \<^verbatim>\<open>undefined\<close> elements as the empty string. A plain object prints
  \<^verbatim>\<open>[object Object]\<close> through \<^verbatim>\<open>Object.prototype.toString\<close>, unless it has an own
  property \<^verbatim>\<open>toString\<close>: a JSON value is not callable, the inherited \<^verbatim>\<open>valueOf\<close>
  returns the object, and the conversion throws a TypeError.
\<close>

definition no_primitive :: js_error where
  "no_primitive = TypeError ''Cannot convert object to primitive value''"

fun to_string :: "platform \<Rightarrow> jsval \<Rightarrow> js_error + string"
  and elem_strings :: "platform \<Rightarrow> jsval list \<Rightarrow> js_error + string list" where
  "to_string P JUndefined = Inr ''undefined''"
| "to_string P JNull = Inr ''null''"
| "to_string P (JBool b) = Inr (if b then ''true'' else ''false'')"
| "to_string P (JNum n) = Inr (num_to_string P n)"
| "to_string P (JStr s) = Inr s"
| "to_string P (JArr xs) =
     (case elem_strings P xs of Inl e \<Rightarrow> Inl e | Inr ss \<Rightarrow> Inr (join_with '','' ss))"
| "to_string P (JObj kvs) =
     (if ''toString'' \<in> set (map fst kvs) then Inl no_primitive else Inr ''[object Object]'')"
| "elem_strings P [] = Inr []"
| "elem_strings P (x # xs) =
     (case (if nullish x then Inr [] else to_string P x) of
        Inl e \<Rightarrow> Inl e
      | Inr s \<Rightarrow> (case elem_strings P xs of Inl e \<Rightarrow> Inl e | Inr ss \<Rightarrow> Inr (s # ss)))"

subsection \<open>Number(v)\<close>

text \<open>
  \<^verbatim>\<open>Number\<close> of a string reads it by the grammar of a numeric string literal: white
  space around it is dropped, the empty string is \<open>0\<close>, then come a signed decimal
  literal (digits, fraction, exponent, or \<^verbatim>\<open>Infinity\<close>) or an unsigned hexadecimal,
  octal or binary integer; any other text is NaN. The exact value of the literal is
  computed here. An integer of magnitude up to \<open>2^53\<close> is a double and is kept; any
  other value is rounded by the platform.
\<close>

definition is_ws :: "char \<Rightarrow> bool" where
  "is_ws c \<longleftrightarrow> c \<in> set [CHR 0x09, CHR 0x0A, CHR 0x0B, CHR 0x0C, CHR 0x0D, CHR '' '', CHR 0xA0]"

definition trim :: "string \<Rightarrow> string" where
  "trim s = rev (dropWhile is_ws (rev (dropWhile is_ws s)))"

fun pos_in :: "char \<Rightarrow> string \<Rightarrow> nat" where
  "pos_in c [] = 0"
| "pos_in c (x # xs) = (if c = x then 0 else Suc (pos_in c xs))"

text \<open>The value of a digit in any radix up to 16; 36 for a character that is no digit.\<close>

definition digit_val :: "char \<Rightarrow> nat" where
  "digit_val c =
     (let i = pos_in c ''0123456789abcdef''; j = pos_in c ''ABCDEF''
      in if i < 16 then i else if j < 6 then 10 + j else 36)"

definition is_digit :: "char \<Rightarrow> bool" where
  "is_digit c \<longleftrightarrow> digit_val c < 10"

definition radix_value :: "nat \<Rightarrow> string \<Rightarrow> nat" where
  "radix_value b s = foldl (\<lambda>a c. a * b + digit_val c) 0 s"

definition radix_literal :: "nat \<Rightarrow> string \<Rightarrow> jsnum" where
  "radix_literal b s =
     (if s \<noteq> [] \<and> list_all (\<lambda>c. digit_val c < b) s then Fin (of_nat (radix_value b s)) else NaN)"

definition scale10 :: "rat \<Rightarrow> int \<Rightarrow> rat" where
  "scale10 q e = (if 0 \<le> e then q * 10 ^ nat e else q / 10 ^ nat (- e))"

text \<open>What follows the mantissa: nothing, or \<^verbatim>\<open>e\<close>, an optional sign and digits.\<close>

definition exponent_part :: "string \<Rightarrow> int option" where
  "exponent_part s =
     (case s of
        [] \<Rightarrow> Some 0
      | c # r \<Rightarrow>
          if c = CHR ''e'' \<or> c = CHR ''E'' then
            (let ds = (case r of [] \<Rightarrow> [] | d # r' \<Rightarrow> if d = CHR ''-'' \<or> d = CHR ''+'' then r' else r);
                 neg = (case r of [] \<Rightarrow> False | d # r' \<Rightarrow> d = CHR ''-'')
             in if ds \<noteq> [] \<and> list_all is_digit ds
                then Some (if neg then - int (radix_value 10 ds) else int (radix_value 10 ds))
                else None)
          else None)"

definition unsigned_decimal :: "string \<Rightarrow> jsnum" where
  "unsigned_decimal s =
     (if s = ''Infinity'' then PosInf
      else
        let ip = takeWhile is_digit s; r = dropWhile is_digit s
        in case r of
             [] \<Rightarrow> if ip = [] then NaN else Fin (of_nat (radix_value 10 ip))
           | c # r1 \<Rightarrow>
               if c = CHR ''.'' then
                 (let fp = takeWhile is_digit r1; r2 = dropWhile is_digit r1
                  in if ip = [] \<and> fp = [] then NaN
                     else case exponent_part r2 of
                            None \<Rightarrow> NaN
                          | Some e \<Rightarrow>
                              Fin (scale10 (of_nat (radix_value 10 ip)
                                            + of_nat (radix_value 10 fp) / 10 ^ length fp) e))
               else if ip = [] then NaN
               else case exponent_part r of
                      None \<Rightarrow> NaN
                    | Some e \<Rightarrow> Fin (scale10 (of_nat (radix_value 10 ip)) e))"

fun negate :: "jsnum \<Rightarrow> jsnum" where
  "negate NaN = NaN"
| "negate PosInf = NegInf"
| "negate NegInf = PosInf"
| "negate (Fin q) = Fin (- q)"

definition numeric_literal :: "string \<Rightarrow> jsnum" where
  "numeric_literal s =
     (case s of
        [] \<Rightarrow> Fin 0
      | c # r \<Rightarrow>
          if c = CHR ''-'' then negate (unsigned_decimal r)
          else if c = CHR ''+'' then unsigned_decimal r
          else if c = CHR ''0'' \<and> r \<noteq> [] \<and> hd r \<in> set ''xX'' then radix_literal 16 (tl r)
          else if c = CHR ''0'' \<and> r \<noteq> [] \<and> hd r \<in> set ''oO'' then radix_literal 8 (tl r)
          else if c = CHR ''0'' \<and> r \<noteq> [] \<and> hd r \<in> set ''bB'' then radix_literal 2 (tl r)
          else unsigned_decimal s)"

definition to_double :: "platform \<Rightarrow> jsnum \<Rightarrow> jsnum" where
  "to_double P n =
     (case n of
        Fin q \<Rightarrow> if of_int \<lfloor>q\<rfloor> = q \<and> \<bar>q\<bar> \<le> 2 ^ 53 then Fin q else round_double P q
      | _ \<Rightarrow> n)"

definition string_to_number :: "platform \<Rightarrow> string \<Rightarrow> jsnum" where
  "string_to_number P s = to_double P (numeric_literal (trim s))"

text \<open>
  \<^verbatim>\<open>Number(v)\<close>. An array or object is first turned into a primitive, which for a JSON
  value is its string (the inherited \<^verbatim>\<open>valueOf\<close> returns the object itself), and may
  throw as \<^verbatim>\<open>String\<close> does.
\<close>

fun to_number :: "platform \<Rightarrow> jsval \<Rightarrow> js_error + jsnum" where
  "to_number P JUndefined = Inr NaN"
| "to_number P JNull = Inr (Fin 0)"
| "to_number P (JBool b) = Inr (Fin (if b then 1 else 0))"
| "to_number P (JNum n) = Inr n"
| "to_number P (JStr s) = Inr (string_to_number P s)"
| "to_number P v = (case to_string P v of Inl e \<Rightarrow> Inl e | Inr s \<Rightarrow> Inr (string_to_number P s))"

section \<open>server.js\<close>

text \<open>A \<^verbatim>\<open>throw\<close> ends the evaluation: the first error of a sequence is its result.\<close>

fun and_then :: "'e + 'a \<Rightarrow> ('a \<Rightarrow> 'e + 'b) \<Rightarrow> 'e + 'b" where
  "and_then (Inl e) f = Inl e"
| "and_then (Inr x) f = f x"

fun map_err :: "('a \<Rightarrow> 'e + 'b) \<Rightarrow> 'a list \<Rightarrow> 'e + 'b list" where
  "map_err f [] = Inr []"
| "map_err f (x # xs) = and_then (f x) (\<lambda>y. and_then (map_err f xs) (\<lambda>ys. Inr (y # ys)))"

subsection \<open>toVariantGID\<close>

definition toVariantGID :: "platform \<Rightarrow> jsval \<Rightarrow> js_error + string" where
  "toVariantGID P v =
     and_then (to_string P (if truthy v then v else JStr []))
       (\<lambda>s. Inr (if prefix ''gid://'' s then s else ''gid://shopify/ProductVariant/'' @ s))"

subsection \<open>The cart lines and attributes that createCheckout builds\<close>

text \<open>
  One element of \<^verbatim>\<open>lines\<close> as the callback of \<^verbatim>\<open>map\<close> returns it.
  \<open>sellingPlanId\<close> holds a string or \<^verbatim>\<open>null\<close>. An attribute is the pair of its
  \<^verbatim>\<open>key\<close> and its \<^verbatim>\<open>value\<close>.
\<close>

record cart_line =
  quantity :: jsnum
  merchandiseId :: string
  sellingPlanId :: jsval
  attributes :: "(string \<times> string) list"

text \<open>
  \<^verbatim>\<open>Object.entries\<close>, which server.js calls on a truthy value of type object only:
  an object gives its properties, an array its elements under their indices.
\<close>

fun entries :: "jsval \<Rightarrow> (string \<times> jsval) list" where
  "entries (JObj kvs) = kvs"
| "entries (JArr xs) = zip (map dec_nat [0..<length xs]) xs"
| "entries v = []"

text \<open>The loop over a line's properties (lines 116 to 122).\<close>

fun property_attrs :: "platform \<Rightarrow> (string \<times> jsval) list \<Rightarrow> js_error + (string \<times> string) list" where
  "property_attrs P [] = Inr []"
| "property_attrs P ((k, v) # kvs) =
     (if nullish v then property_attrs P kvs
      else if typeof v = ''string'' \<or> typeof v = ''number'' \<or> typeof v = ''boolean'' then
        and_then (to_string P v)
          (\<lambda>s. and_then (property_attrs P kvs) (\<lambda>rest. Inr ((k, s) # rest)))
      else property_attrs P kvs)"

definition line_attrs :: "platform \<Rightarrow> jsval \<Rightarrow> js_error + (string \<times> string) list" where
  "line_attrs P l =
     (let props = get_opt l ''properties''
      in if truthy props \<and> typeof props = ''object'' then property_attrs P (entries props)
         else Inr [])"

definition normalize_line :: "platform \<Rightarrow> jsval \<Rightarrow> js_error + cart_line" where
  "normalize_line P l =
     and_then (line_attrs P l) (\<lambda>attrs.
     and_then (to_number P (get_opt l ''quantity'')) (\<lambda>n.
     and_then (toVariantGID P (get_opt l ''id'')) (\<lambda>gid.
     and_then (if truthy (get_opt l ''selling_plan'')
               then and_then (to_string P (get_prop l ''selling_plan'')) (\<lambda>s. Inr (JStr s))
               else Inr JNull) (\<lambda>plan.
     Inr \<lparr>quantity = (if truthy (JNum n) then n else Fin 1),
          merchandiseId = gid,
          sellingPlanId = plan,
          attributes = attrs\<rparr>))))"

text \<open>
  The object that the callback returns (lines 124 to 129) as a JavaScript value, and the
  names of the properties that \<^verbatim>\<open>JSON.stringify\<close> writes for an object: it leaves
  out a property whose value is \<^verbatim>\<open>undefined\<close> and writes one whose value is
  \<^verbatim>\<open>null\<close>.
\<close>

definition line_object :: "cart_line \<Rightarrow> jsval" where
  "line_object nl =
     JObj [(''quantity'', JNum (quantity nl)),
           (''merchandiseId'', JStr (merchandiseId nl)),
           (''sellingPlanId'', sellingPlanId nl),
           (''attributes'',
              JArr (map (\<lambda>(k, v). JObj [(''key'', JStr k), (''value'', JStr v)]) (attributes nl)))]"

definition written_fields :: "jsval \<Rightarrow> string list" where
  "written_fields v =
     (case v of JObj kvs \<Rightarrow> map fst (filter (\<lambda>kv. snd kv \<noteq> JUndefined) kvs) | _ \<Rightarrow> [])"

text \<open>
  \<^verbatim>\<open>(payload?.lines || []).map(...)\<close>: a truthy value that is not an array has no
  function \<^verbatim>\<open>map\<close>, and the call throws.
\<close>

definition cart_lines :: "platform \<Rightarrow> jsval \<Rightarrow> js_error + cart_line list" where
  "cart_lines P payload =
     (let ls = get_opt payload ''lines''
      in if \<not> truthy ls then Inr []
         else case ls of
                JArr xs \<Rightarrow> map_err (normalize_line P) xs
              | _ \<Rightarrow> Inl (TypeError ''(intermediate value).map is not a function''))"

text \<open>The loop over the payload's attributes (lines 134 to 137).\<close>

fun payload_attrs :: "platform \<Rightarrow> (string \<times> jsval) list \<Rightarrow> js_error + (string \<times> string) list" where
  "payload_attrs P [] = Inr []"
| "payload_attrs P ((k, v) # kvs) =
     (if nullish v then payload_attrs P kvs
      else and_then (to_string P v)
             (\<lambda>s. and_then (payload_attrs P kvs) (\<lambda>rest. Inr ((k, s) # rest))))"

definition cart_attributes :: "platform \<Rightarrow> jsval \<Rightarrow> js_error + (string \<times> string) list" where
  "cart_attributes P payload =
     (let attrs = get_opt payload ''attributes''
      in if truthy attrs \<and> typeof attrs = ''object'' then payload_attrs P (entries attrs)
         else Inr [])"

definition cart_note :: "platform \<Rightarrow> jsval \<Rightarrow> js_error + string" where
  "cart_note P payload =
     (if truthy (get_opt payload ''note'') then to_string P (get_prop payload ''note'')
      else Inr [])"

text \<open>The \<^verbatim>\<open>variables\<close> of the mutation: lines, attributes and note, built in this order.\<close>

record variables =
  var_lines :: "cart_line list"
  var_attributes :: "(string \<times> string) list"
  var_note :: string

definition build_variables :: "platform \<Rightarrow> jsval \<Rightarrow> js_error + variables" where
  "build_variables P payload =
     and_then (cart_lines P payload) (\<lambda>ls.
     and_then (cart_attributes P payload) (\<lambda>as.
     and_then (cart_note P payload) (\<lambda>n.
     Inr \<lparr>var_lines = ls, var_attributes = as, var_note = n\<rparr>)))"

subsection \<open>Shops and the network\<close>

text \<open>
  \<^verbatim>\<open>process.env\<close> maps a name to a string or to \<^verbatim>\<open>undefined\<close> (\<open>None\<close>). Shop B
  takes its two settings as they are; shop C replaces a missing or empty one by the
  empty string.
\<close>

type_synonym env = "string \<Rightarrow> string option"

record shop =
  domain :: "string option"
  sfApi :: "string option"

datatype shop_key = B | C

definition or_empty :: "string option \<Rightarrow> string option" where
  "or_empty x = (case x of None \<Rightarrow> Some [] | Some s \<Rightarrow> Some s)"

fun SHOPS :: "env \<Rightarrow> shop_key \<Rightarrow> shop" where
  "SHOPS en B = \<lparr>domain = en ''SHOP_B_DOMAIN'', sfApi = en ''SHOP_B_STOREFRONT_TOKEN''\<rparr>"
| "SHOPS en C = \<lparr>domain = or_empty (en ''SHOP_C_DOMAIN''),
                  sfApi = or_empty (en ''SHOP_C_STOREFRONT_TOKEN'')\<rparr>"

text \<open>Truthiness of a setting: defined and not the empty string.\<close>

definition present :: "string option \<Rightarrow> bool" where
  "present x = (case x of None \<Rightarrow> False | Some s \<Rightarrow> s \<noteq> [])"

definition endpoint :: "shop \<Rightarrow> string" where
  "endpoint s =
     ''https://'' @ (case domain s of None \<Rightarrow> ''undefined'' | Some d \<Rightarrow> d) @ ''/api/2024-10/graphql.json''"

text \<open>
  An outbound POST: its address, its access-token header and its body, which is the
  health query or the cart mutation with its variables. \<^verbatim>\<open>fetch\<close> rejects with an
  error or resolves with a response, of which server.js reads \<^verbatim>\<open>ok\<close> and
  \<^verbatim>\<open>json()\<close> (which rejects when the body is not JSON). The network decides the outcome
  of the n-th call of a run; the calls made so far are kept in a log.
\<close>

datatype request_body = ShopQuery | CartCreate variables

record request =
  url :: string
  access_token :: "string option"
  body :: request_body

record response =
  ok :: bool
  json :: "js_error + jsval"

datatype fetch_outcome = Rejected js_error | Resolved response

type_synonym network = "nat \<Rightarrow> request \<Rightarrow> fetch_outcome"

definition fetch :: "network \<Rightarrow> request list \<Rightarrow> request \<Rightarrow> fetch_outcome \<times> request list" where
  "fetch net calls rq = (net (length calls) rq, calls @ [rq])"

subsection \<open>healthCheck and pickTargetShop\<close>

definition health_request :: "shop \<Rightarrow> request" where
  "health_request s = \<lparr>url = endpoint s, access_token = sfApi s, body = ShopQuery\<rparr>"

definition healthCheck :: "env \<Rightarrow> network \<Rightarrow> request list \<Rightarrow> shop_key \<Rightarrow> bool \<times> request list" where
  "healthCheck en net calls shopKey =
     (let s = SHOPS en shopKey
      in if \<not> present (domain s) \<or> \<not> present (sfApi s) then (False, calls)
         else case fetch net calls (health_request s) of
                (Rejected e, calls') \<Rightarrow> (False, calls')
              | (Resolved r, calls') \<Rightarrow> (ok r, calls'))"

definition pickTargetShop :: "env \<Rightarrow> network \<Rightarrow> request list \<Rightarrow> shop_key option \<times> request list" where
  "pickTargetShop en net calls =
     (case healthCheck en net calls B of
        (True, calls1) \<Rightarrow> (Some B, calls1)
      | (False, calls1) \<Rightarrow>
          (case healthCheck en net calls1 C of
             (True, calls2) \<Rightarrow> (Some C, calls2)
           | (False, calls2) \<Rightarrow> (None, calls2)))"

subsection \<open>createCheckout\<close>

definition read_message :: "jsval \<Rightarrow> js_error + jsval" where
  "read_message e =
     (if nullish e
      then Inl (TypeError (''Cannot read properties of ''
                           @ (if e = JNull then ''null'' else ''undefined'')
                           @ '' (reading '' @ [CHR 0x27] @ ''message'' @ [CHR 0x27] @ '')''))
      else Inr (get_prop e ''message''))"

text \<open>
  Lines 153 to 157: what createCheckout makes of the parsed response. \<open>userErrors\<close> is
  \<^verbatim>\<open>data?.data?.cartCreate?.userErrors\<close> and \<open>checkoutUrl\<close> is
  \<^verbatim>\<open>data?.data?.cartCreate?.cart?.checkoutUrl\<close>.
\<close>

definition userErrors :: "jsval \<Rightarrow> jsval" where
  "userErrors data = get_opt (get_opt (get_opt data ''data'') ''cartCreate'') ''userErrors''"

definition checkoutUrl :: "jsval \<Rightarrow> jsval" where
  "checkoutUrl data =
     get_opt (get_opt (get_opt (get_opt data ''data'') ''cartCreate'') ''cart'') ''checkoutUrl''"

definition read_result :: "platform \<Rightarrow> jsval \<Rightarrow> js_error + jsval" where
  "read_result P data =
     (let errs = userErrors data
      in if truthy (get_opt errs ''length'') then
           (case errs of
              JArr es \<Rightarrow>
                and_then (map_err read_message es) (\<lambda>ms.
                and_then (elem_strings P ms) (\<lambda>ss.
                Inl (Error (join_with ''; '' ss))))
            | _ \<Rightarrow> Inl (TypeError ''errs.map is not a function''))
         else
           (let u = checkoutUrl data
            in if \<not> truthy u then Inl (Error ''checkoutUrl introuvable'') else Inr u))"

definition cart_request :: "shop \<Rightarrow> variables \<Rightarrow> request" where
  "cart_request s vars = \<lparr>url = endpoint s, access_token = sfApi s, body = CartCreate vars\<rparr>"

definition createCheckout ::
    "platform \<Rightarrow> env \<Rightarrow> network \<Rightarrow> request list \<Rightarrow> shop_key \<Rightarrow> jsval \<Rightarrow> (js_error + jsval) \<times> request list" where
  "createCheckout P en net calls shopKey payload =
     (let s = SHOPS en shopKey
      in case build_variables P payload of
           Inl e \<Rightarrow> (Inl e, calls)
         | Inr vars \<Rightarrow>
             (case fetch net calls (cart_request s vars) of
                (Rejected e, calls') \<Rightarrow> (Inl e, calls')
              | (Resolved r, calls') \<Rightarrow> (and_then (json r) (read_result P), calls')))"

subsection \<open>POST /bridge\<close>

text \<open>
  What the handler sends: a status with the JSON body \<^verbatim>\<open>{error: ...}\<close>, or a redirect
  with its \<^verbatim>\<open>Location\<close>. \<^verbatim>\<open>res.redirect(status, url)\<close> of express sets the
  \<^verbatim>\<open>Location\<close> header from \<^verbatim>\<open>String(url)\<close>, so it throws when that conversion
  throws. The location is kept here as that string, before express percent-encodes it
  (the encoding keeps the empty string empty and any other string non-empty). The alias
  \<^verbatim>\<open>back\<close> of express 4, which stands for the referrer of the request, is not
  modelled.
\<close>

datatype http_response = Json nat string | Redirect nat string

definition redirect :: "platform \<Rightarrow> nat \<Rightarrow> jsval \<Rightarrow> js_error + http_response" where
  "redirect P status u = and_then (to_string P u) (\<lambda>loc. Inr (Redirect status loc))"

definition internal_error :: "js_error \<Rightarrow> http_response" where
  "internal_error e = Json 500 (if message e \<noteq> [] then message e else ''Erreur interne'')"

definition read_body :: "platform \<Rightarrow> jsval \<Rightarrow> js_error + jsval" where
  "read_body P b =
     (if truthy b \<and> typeof (get_prop b ''payload'') = ''string'' then
        (case get_prop b ''payload'' of
           JStr s \<Rightarrow> (case json_parse P s of Inl m \<Rightarrow> Inl (SyntaxError m) | Inr v \<Rightarrow> Inr v)
         | _ \<Rightarrow> Inr b)
      else Inr b)"

fun is_array :: "jsval \<Rightarrow> bool" where
  "is_array (JArr xs) = True"
| "is_array v = False"

definition bridge ::
    "platform \<Rightarrow> env \<Rightarrow> network \<Rightarrow> request list \<Rightarrow> jsval \<Rightarrow> http_response \<times> request list" where
  "bridge P en net calls b =
     (case read_body P b of
        Inl e \<Rightarrow> (internal_error e, calls)
      | Inr payload \<Rightarrow>
          if \<not> is_array (get_opt payload ''lines'')
             \<or> \<not> truthy (get_prop (get_opt payload ''lines'') ''length'')
          then (Json 400 ''lines manquantes'', calls)
          else case pickTargetShop en net calls of
                 (None, calls1) \<Rightarrow> (Json 503 ''Aucun shop disponible'', calls1)
               | (Some target, calls1) \<Rightarrow>
                   (case createCheckout P en net calls1 target payload of
                      (Inl e, calls2) \<Rightarrow> (internal_error e, calls2)
                    | (Inr u, calls2) \<Rightarrow>
                        (case redirect P 302 u of
                           Inl e \<Rightarrow> (internal_error e, calls2)
                         | Inr sent \<Rightarrow> (sent, calls2))))"

section \<open>Runs of the handler\<close>

text \<open>
  A request is accepted when its body reads as a payload whose \<^verbatim>\<open>lines\<close> is a non-empty
  array and pickTargetShop returns a shop; \<open>calls1\<close> is the log after the probes. The
  backend answers createCheckout's call when the variables are built without a throw,
  \<^verbatim>\<open>fetch\<close> resolves and the body of the response parses to \<open>data\<close>.
\<close>

definition accepted ::
    "platform \<Rightarrow> env \<Rightarrow> network \<Rightarrow> request list \<Rightarrow> jsval \<Rightarrow> jsval \<Rightarrow> shop_key \<Rightarrow> request list \<Rightarrow> bool" where
  "accepted P en net calls b payload target calls1 \<longleftrightarrow>
     read_body P b = Inr payload
     \<and> is_array (get_opt payload ''lines'')
     \<and> truthy (get_prop (get_opt payload ''lines'') ''length'')
     \<and> pickTargetShop en net calls = (Some target, calls1)"

definition answered ::
    "platform \<Rightarrow> env \<Rightarrow> network \<Rightarrow> request list \<Rightarrow> shop_key \<Rightarrow> jsval \<Rightarrow> jsval \<Rightarrow> bool" where
  "answered P en net calls1 target payload data \<longleftrightarrow>
     (case build_variables P payload of
        Inl e \<Rightarrow> False
      | Inr vars \<Rightarrow>
          (case net (length calls1) (cart_request (SHOPS en target) vars) of
             Rejected e \<Rightarrow> False
           | Resolved r \<Rightarrow> json r = Inr data))"

text \<open>
  The shop list in its declared order, and the first shop of a list that a probe
  reports healthy: the selection as the design states it, to compare pickTargetShop with.
\<close>

definition shop_priority :: "shop_key list" where
  "shop_priority = [B, C]"

definition first_healthy :: "(shop_key \<Rightarrow> bool) \<Rightarrow> shop_key list \<Rightarrow> shop_key option" where
  "first_healthy probe ks = find probe ks"

subsection \<open>Concrete inputs\<close>

text \<open>
  A runtime for the concrete runs below. Of its \<^verbatim>\<open>JSON.parse\<close> they use the value at
  the text \<^verbatim>\<open>{\<close>, which is not JSON; its number functions are not reached.
\<close>

definition demo_platform :: platform where
  "demo_platform =
     \<lparr>json_parse = (\<lambda>s. if s = ''[]'' then Inr (JArr []) else Inl ''Unexpected end of JSON input''),
      round_double = Fin,
      number_to_string = (\<lambda>q. ''2.5'')\<rparr>"

text \<open>An environment that configures shop C only, and one that configures no shop.\<close>

definition demo_env :: env where
  "demo_env =
     (\<lambda>k. if k = ''SHOP_C_DOMAIN'' then Some ''c.example''
          else if k = ''SHOP_C_STOREFRONT_TOKEN'' then Some ''token-c''
          else None)"

definition empty_env :: env where
  "empty_env = (\<lambda>k. None)"

text \<open>
  A network on which every probe succeeds and the cart mutation is answered with the
  given JSON value, and a network on which every call is rejected.
\<close>

definition answering :: "jsval \<Rightarrow> network" where
  "answering data =
     (\<lambda>n rq. case body rq of
                ShopQuery \<Rightarrow> Resolved \<lparr>ok = True, json = Inr (JObj [])\<rparr>
              | CartCreate vars \<Rightarrow> Resolved \<lparr>ok = True, json = Inr data\<rparr>)"

definition unreachable :: network where
  "unreachable = (\<lambda>n rq. Rejected (FetchError ''connect ECONNREFUSED''))"

text \<open>The answer of the backend to \<^verbatim>\<open>cartCreate\<close> with the given cart and user errors.\<close>

definition cart_answer :: "jsval \<Rightarrow> jsval \<Rightarrow> jsval" where
  "cart_answer cart errs =
     JObj [(''data'', JObj [(''cartCreate'', JObj [(''cart'', cart), (''userErrors'', errs)])])]"

definition demo_properties :: jsval where
  "demo_properties =
     JObj [(''color'', JStr ''red''), (''size'', JNum (Fin 42)), (''active'', JBool True),
           (''meta'', JObj [(''x'', JNum (Fin 1))]), (''skip'', JNull)]"

definition demo_line :: jsval where
  "demo_line = JObj [(''id'', JNum (Fin 12345)), (''properties'', demo_properties)]"

definition demo_order :: jsval where
  "demo_order = JObj [(''lines'', JArr [demo_line])]"

section \<open>Properties\<close>

subsection \<open>A payload string that is not JSON\<close>

lemma payload_string_truthy: "get_prop b ''payload'' = JStr s \<Longrightarrow> truthy b"
  by (cases b) (auto split: if_splits)

lemma read_body_invalid:
  "get_prop b ''payload'' = JStr s \<Longrightarrow> json_parse P s = Inl m \<Longrightarrow>
   read_body P b = Inl (SyntaxError m)"
  by (simp add: read_body_def payload_string_truthy)

text \<open>
  Claim C1, as amended. When the body carries a string-valued \<^verbatim>\<open>payload\<close> on which
  \<^verbatim>\<open>JSON.parse\<close> throws, the throw is caught by the handler's own \<^verbatim>\<open>catch\<close>: the
  response is a 500 whose error is the message of the parse error (\<^verbatim>\<open>Erreur interne\<close>
  when that message is empty), and no outbound call is made. The handler has no 400
  for this case and no text \<^verbatim>\<open>invalid payload\<close>.
\<close>

theorem bridge_invalid_payload:
  assumes "get_prop b ''payload'' = JStr s" and "json_parse P s = Inl m"
  shows "bridge P en net calls b = (Json 500 (if m \<noteq> [] then m else ''Erreur interne''), calls)"
  using read_body_invalid [OF assms] by (simp add: bridge_def internal_error_def)

theorem bridge_invalid_payload_witness:
  "get_prop (JObj [(''payload'', JStr ''{'')]) ''payload'' = JStr ''{''
   \<and> json_parse demo_platform ''{'' = Inl ''Unexpected end of JSON input''
   \<and> bridge demo_platform demo_env unreachable [] (JObj [(''payload'', JStr ''{'')])
       = (Json 500 ''Unexpected end of JSON input'', [])"
proof -
  have p: "get_prop (JObj [(''payload'', JStr ''{'')]) ''payload'' = JStr ''{''"
    by simp
  have j: "json_parse demo_platform ''{'' = Inl ''Unexpected end of JSON input''"
    by (simp add: demo_platform_def)
  from bridge_invalid_payload [OF p j, of demo_env unreachable "[]"] p j show ?thesis
    by simp
qed

text \<open>
  The claim as the specification states it fails: the form field \<^verbatim>\<open>payload={\<close> is
  answered with status 500, not with 400 and \<^verbatim>\<open>invalid payload\<close>.
\<close>

theorem invalid_payload_is_500:
  "fst (bridge demo_platform demo_env unreachable [] (JObj [(''payload'', JStr ''{'')]))
     = Json 500 ''Unexpected end of JSON input''
   \<and> fst (bridge demo_platform demo_env unreachable [] (JObj [(''payload'', JStr ''{'')]))
     \<noteq> Json 400 ''invalid payload''"
  by (simp add: bridge_def read_body_def demo_platform_def internal_error_def)

subsection \<open>Merchandise identifiers\<close>



lemma to_string_12345: "to_string P (JNum (Fin 12345)) = Inr ''12345''"
  by (simp add: num_to_string_def dec_int_def dec_nat.simps)


lemma property_attrs_total: "\<exists>attrs. property_attrs P kvs = Inr attrs"
proof (induction kvs)
  case Nil
  show ?case by simp
next
  case (Cons kv kvs)
  obtain k v where kv: "kv = (k, v)"
    by (cases kv)
  from Cons obtain rest where "property_attrs P kvs = Inr rest"
    by blast
  then show ?case
    unfolding kv by (cases v) simp_all
qed

lemma line_attrs_total: "\<exists>attrs. line_attrs P l = Inr attrs"
  by (simp add: line_attrs_def Let_def property_attrs_total)

lemma selling_plan_same:
  "truthy (get_opt l ''selling_plan'') \<Longrightarrow> get_prop l ''selling_plan'' = get_opt l ''selling_plan''"
  by (auto simp: get_opt_def split: if_splits)

lemma normalize_line_produced:
  assumes "to_number P (get_opt l ''quantity'') = Inr n"
    and "toVariantGID P (get_opt l ''id'') = Inr g"
    and "(if truthy (get_opt l ''selling_plan'')
          then and_then (to_string P (get_opt l ''selling_plan'')) (\<lambda>s. Inr (JStr s))
          else Inr JNull) = Inr plan"
  shows "\<exists>attrs. line_attrs P l = Inr attrs
           \<and> normalize_line P l =
               Inr \<lparr>quantity = (if n = NaN \<or> n = Fin 0 then Fin 1 else n), merchandiseId = g,
                    sellingPlanId = plan, attributes = attrs\<rparr>"
proof -
  obtain attrs where a: "line_attrs P l = Inr attrs"
    using line_attrs_total by blast
  have "normalize_line P l =
          Inr \<lparr>quantity = (if n = NaN \<or> n = Fin 0 then Fin 1 else n), merchandiseId = g,
               sellingPlanId = plan, attributes = attrs\<rparr>"
    using assms a by (cases "truthy (get_opt l ''selling_plan'')")
      (simp_all add: normalize_line_def selling_plan_same)
  with a show ?thesis
    by blast
qed




subsection \<open>Line properties and payload attributes\<close>

lemma to_string_42: "to_string P (JNum (Fin 42)) = Inr ''42''"
  by (simp add: num_to_string_def dec_int_def dec_nat.simps)

text \<open>
  Claim C2. The loop over a line's properties keeps the string, number and boolean
  values and drops \<^verbatim>\<open>null\<close>, objects and arrays: the properties of the claim give
  color=red, size=42, active=true in this order. The loop over the payload's
  attributes has the \<^verbatim>\<open>null\<close> test but not the test of the type: the same object as
  payload attributes gives a fourth attribute, meta with the value
  \<^verbatim>\<open>[object Object]\<close>. The two scopes do not apply the same rule.
\<close>

theorem attribute_scopes_differ:
  "line_attrs P (JObj [(''properties'', demo_properties)])
     = Inr [(''color'', ''red''), (''size'', ''42''), (''active'', ''true'')]
   \<and> cart_attributes P (JObj [(''lines'', JArr [demo_line]), (''attributes'', demo_properties)])
     = Inr [(''color'', ''red''), (''size'', ''42''), (''active'', ''true''),
            (''meta'', ''[object Object]'')]"
  using to_string_42 [of P]
  by (simp add: line_attrs_def cart_attributes_def get_opt_def demo_properties_def)

subsection \<open>Quantity and selling plan of a line\<close>

lemma abc_is_NaN: "to_number P (JStr ''abc'') = Inr NaN"
  by (simp add: string_to_number_def trim_def is_ws_def numeric_literal_def unsigned_decimal_def
      is_digit_def digit_val_def to_double_def)

lemma normalize_line_fields:
  assumes "normalize_line P l = Inr nl"
  obtains attrs n gid plan where
    "line_attrs P l = Inr attrs" "to_number P (get_opt l ''quantity'') = Inr n"
    "toVariantGID P (get_opt l ''id'') = Inr gid"
    "(if truthy (get_opt l ''selling_plan'')
      then and_then (to_string P (get_prop l ''selling_plan'')) (\<lambda>s. Inr (JStr s))
      else Inr JNull) = Inr plan"
    "nl = \<lparr>quantity = (if truthy (JNum n) then n else Fin 1), merchandiseId = gid,
           sellingPlanId = plan, attributes = attrs\<rparr>"
proof -
  obtain attrs where 1: "line_attrs P l = Inr attrs"
    using assms by (cases "line_attrs P l") (simp_all add: normalize_line_def)
  obtain n where 2: "to_number P (get_opt l ''quantity'') = Inr n"
    using assms 1 by (cases "to_number P (get_opt l ''quantity'')") (simp_all add: normalize_line_def)
  obtain gid where 3: "toVariantGID P (get_opt l ''id'') = Inr gid"
    using assms 1 2 by (cases "toVariantGID P (get_opt l ''id'')") (simp_all add: normalize_line_def)
  let ?sp = "if truthy (get_opt l ''selling_plan'')
      then and_then (to_string P (get_prop l ''selling_plan'')) (\<lambda>s. Inr (JStr s))
      else Inr JNull"
  obtain plan where 4: "?sp = Inr plan"
    using assms 1 2 3 by (cases ?sp) (simp_all add: normalize_line_def)
  have "nl = \<lparr>quantity = (if truthy (JNum n) then n else Fin 1), merchandiseId = gid,
           sellingPlanId = plan, attributes = attrs\<rparr>"
    using assms 1 2 3 4 by (simp add: normalize_line_def)
  with 1 2 3 4 show thesis
    by (rule that)
qed

text \<open>
  Claim C3, as amended. The quantity of a normalized line is \<^verbatim>\<open>Number\<close> of the input
  quantity when that number is truthy, and 1 when it is NaN or zero; so it is never
  NaN and never zero, and a missing quantity or the quantity \<^verbatim>\<open>abc\<close> gives 1. Nothing
  makes it an integer or at least 1.
\<close>

theorem normalize_line_quantity:
  assumes "normalize_line P l = Inr nl"
  shows "(\<exists>n. to_number P (get_opt l ''quantity'') = Inr n
              \<and> quantity nl = (if n = NaN \<or> n = Fin 0 then Fin 1 else n))
         \<and> quantity nl \<noteq> NaN \<and> quantity nl \<noteq> Fin 0
         \<and> (get_opt l ''quantity'' = JUndefined \<or> get_opt l ''quantity'' = JStr ''abc''
              \<longrightarrow> quantity nl = Fin 1)"
proof -
  from assms obtain attrs n gid plan where
    n: "to_number P (get_opt l ''quantity'') = Inr n" and
    nl: "nl = \<lparr>quantity = (if truthy (JNum n) then n else Fin 1), merchandiseId = gid,
           sellingPlanId = plan, attributes = attrs\<rparr>"
    by (rule normalize_line_fields)
  have q: "quantity nl = (if n = NaN \<or> n = Fin 0 then Fin 1 else n)"
    using nl by simp
  have u: "get_opt l ''quantity'' = JUndefined \<Longrightarrow> n = NaN"
    using n by simp
  have a: "get_opt l ''quantity'' = JStr ''abc'' \<Longrightarrow> n = NaN"
    using n abc_is_NaN [of P] by simp
  from n q u a show ?thesis
    by auto
qed

theorem normalize_line_quantity_witness:
  "normalize_line demo_platform (JObj [(''id'', JNum (Fin 12345)), (''quantity'', JStr ''abc'')])
     = Inr \<lparr>quantity = Fin 1, merchandiseId = ''gid://shopify/ProductVariant/12345'',
            sellingPlanId = JNull, attributes = []\<rparr>
   \<and> quantity \<lparr>quantity = Fin 1, merchandiseId = ''gid://shopify/ProductVariant/12345'',
            sellingPlanId = JNull, attributes = []\<rparr> = Fin 1"
proof -
  let ?l = "JObj [(''id'', JNum (Fin 12345)), (''quantity'', JStr ''abc'')]"
  let ?nl = "\<lparr>quantity = Fin 1, merchandiseId = ''gid://shopify/ProductVariant/12345'',
            sellingPlanId = JNull, attributes = []\<rparr>"
  have n: "normalize_line demo_platform ?l = Inr ?nl"
    using abc_is_NaN [of demo_platform] to_string_12345 [of demo_platform]
    by (simp add: normalize_line_def line_attrs_def get_opt_def toVariantGID_def)
  have g: "get_opt ?l ''quantity'' = JStr ''abc''"
    by (simp add: get_opt_def)
  from normalize_line_quantity [OF n] g have "quantity ?nl = Fin 1"
    by blast
  with n show ?thesis
    by blast
qed

text \<open>
  The claim as the specification states it fails: the quantity \<open>-3\<close> stays \<open>-3\<close>, which
  is below 1, and the quantity 2.5 stays 2.5, which is no integer.
\<close>

theorem quantity_can_be_negative_or_fractional:
  "normalize_line demo_platform (JObj [(''id'', JNum (Fin 12345)), (''quantity'', JNum (Fin (- 3)))])
     = Inr \<lparr>quantity = Fin (- 3), merchandiseId = ''gid://shopify/ProductVariant/12345'',
            sellingPlanId = JNull, attributes = []\<rparr>
   \<and> normalize_line demo_platform (JObj [(''id'', JNum (Fin 12345)), (''quantity'', JNum (Fin (5 / 2)))])
     = Inr \<lparr>quantity = Fin (5 / 2), merchandiseId = ''gid://shopify/ProductVariant/12345'',
            sellingPlanId = JNull, attributes = []\<rparr>"
  using to_string_12345 [of demo_platform]
  by (simp add: normalize_line_def line_attrs_def get_opt_def toVariantGID_def)

lemma sellingPlanId_written:
  "sellingPlanId nl \<noteq> JUndefined \<Longrightarrow> ''sellingPlanId'' \<in> set (written_fields (line_object nl))"
  by (simp add: written_fields_def line_object_def)

text \<open>
  Claim C4, as amended. Take a line whose quantity converts to a number and whose
  identifier converts to a string. When its \<^verbatim>\<open>selling_plan\<close> is absent or falsy, the
  normalized line is produced and its selling-plan identifier is \<^verbatim>\<open>null\<close>: the
  property is written into the outbound line with the value \<^verbatim>\<open>null\<close>, it is not left
  out and it is not the empty string. When the \<^verbatim>\<open>selling_plan\<close> is truthy, the line is
  produced with the string conversion of the selling plan as identifier, and when that
  conversion throws, the normalization throws the same error.
\<close>

theorem normalize_line_sellingPlanId:
  assumes "to_number P (get_opt l ''quantity'') = Inr n"
    and "toVariantGID P (get_opt l ''id'') = Inr g"
  shows "(\<not> truthy (get_opt l ''selling_plan'') \<longrightarrow>
            (\<exists>nl. normalize_line P l = Inr nl \<and> sellingPlanId nl = JNull
                  \<and> merchandiseId nl = g
                  \<and> ''sellingPlanId'' \<in> set (written_fields (line_object nl))))
         \<and> (truthy (get_opt l ''selling_plan'') \<and> to_string P (get_opt l ''selling_plan'') = Inr s \<longrightarrow>
            (\<exists>nl. normalize_line P l = Inr nl \<and> sellingPlanId nl = JStr s
                  \<and> merchandiseId nl = g
                  \<and> ''sellingPlanId'' \<in> set (written_fields (line_object nl))))
         \<and> (truthy (get_opt l ''selling_plan'') \<and> to_string P (get_opt l ''selling_plan'') = Inl e \<longrightarrow>
            normalize_line P l = Inl e)"
proof (intro conjI impI)
  assume "\<not> truthy (get_opt l ''selling_plan'')"
  then have "(if truthy (get_opt l ''selling_plan'')
          then and_then (to_string P (get_opt l ''selling_plan'')) (\<lambda>s. Inr (JStr s))
          else Inr JNull) = Inr JNull"
    by simp
  from normalize_line_produced [OF assms this]
  obtain nl where "normalize_line P l = Inr nl" "sellingPlanId nl = JNull" "merchandiseId nl = g"
    by auto
  then show "\<exists>nl. normalize_line P l = Inr nl \<and> sellingPlanId nl = JNull
                  \<and> merchandiseId nl = g
                  \<and> ''sellingPlanId'' \<in> set (written_fields (line_object nl))"
    by (auto simp: sellingPlanId_written)
next
  assume "truthy (get_opt l ''selling_plan'') \<and> to_string P (get_opt l ''selling_plan'') = Inr s"
  then have "(if truthy (get_opt l ''selling_plan'')
          then and_then (to_string P (get_opt l ''selling_plan'')) (\<lambda>s. Inr (JStr s))
          else Inr JNull) = Inr (JStr s)"
    by simp
  from normalize_line_produced [OF assms this]
  obtain nl where "normalize_line P l = Inr nl" "sellingPlanId nl = JStr s" "merchandiseId nl = g"
    by auto
  then show "\<exists>nl. normalize_line P l = Inr nl \<and> sellingPlanId nl = JStr s
                  \<and> merchandiseId nl = g
                  \<and> ''sellingPlanId'' \<in> set (written_fields (line_object nl))"
    by (auto simp: sellingPlanId_written)
next
  assume a: "truthy (get_opt l ''selling_plan'') \<and> to_string P (get_opt l ''selling_plan'') = Inl e"
  obtain attrs where "line_attrs P l = Inr attrs"
    using line_attrs_total by blast
  with assms a show "normalize_line P l = Inl e"
    by (simp add: normalize_line_def selling_plan_same)
qed

theorem normalize_line_sellingPlanId_witness:
  "normalize_line demo_platform (JObj [(''id'', JNum (Fin 12345)), (''selling_plan'', JStr [])])
     = Inr \<lparr>quantity = Fin 1, merchandiseId = ''gid://shopify/ProductVariant/12345'',
            sellingPlanId = JNull, attributes = []\<rparr>
   \<and> normalize_line demo_platform (JObj [(''id'', JNum (Fin 12345)), (''selling_plan'', JNum (Fin 42))])
     = Inr \<lparr>quantity = Fin 1, merchandiseId = ''gid://shopify/ProductVariant/12345'',
            sellingPlanId = JStr ''42'', attributes = []\<rparr>"
proof -
  let ?l = "JObj [(''id'', JNum (Fin 12345)), (''selling_plan'', JStr [])]"
  let ?m = "JObj [(''id'', JNum (Fin 12345)), (''selling_plan'', JNum (Fin 42))]"
  have ql: "to_number demo_platform (get_opt ?l ''quantity'') = Inr NaN"
    by (simp add: get_opt_def)
  have qm: "to_number demo_platform (get_opt ?m ''quantity'') = Inr NaN"
    by (simp add: get_opt_def)
  have gl: "toVariantGID demo_platform (get_opt ?l ''id'') = Inr ''gid://shopify/ProductVariant/12345''"
    using to_string_12345 [of demo_platform] by (simp add: get_opt_def toVariantGID_def)
  have gm: "toVariantGID demo_platform (get_opt ?m ''id'') = Inr ''gid://shopify/ProductVariant/12345''"
    using to_string_12345 [of demo_platform] by (simp add: get_opt_def toVariantGID_def)
  have sl: "\<not> truthy (get_opt ?l ''selling_plan'')"
    by (simp add: get_opt_def)
  have sm: "truthy (get_opt ?m ''selling_plan'')
            \<and> to_string demo_platform (get_opt ?m ''selling_plan'') = Inr ''42''"
    using to_string_42 [of demo_platform] by (simp add: get_opt_def)
  from normalize_line_sellingPlanId [OF ql gl, THEN conjunct1, rule_format, OF sl]
  obtain nl where n: "normalize_line demo_platform ?l = Inr nl" and pn: "sellingPlanId nl = JNull"
    by blast
  from normalize_line_sellingPlanId [OF qm gm, THEN conjunct2, THEN conjunct1, rule_format, OF sm]
  obtain ml where m: "normalize_line demo_platform ?m = Inr ml" and pm: "sellingPlanId ml = JStr ''42''"
    by blast
  have fl: "quantity nl = Fin 1 \<and> merchandiseId nl = ''gid://shopify/ProductVariant/12345''
            \<and> attributes nl = []"
    using n to_string_12345 [of demo_platform]
    by (auto simp: normalize_line_def line_attrs_def get_opt_def toVariantGID_def)
  have fm: "quantity ml = Fin 1 \<and> merchandiseId ml = ''gid://shopify/ProductVariant/12345''
            \<and> attributes ml = []"
    using m to_string_12345 [of demo_platform] to_string_42 [of demo_platform]
    by (auto simp: normalize_line_def line_attrs_def get_opt_def toVariantGID_def)
  from n m pn pm fl fm show ?thesis
    by simp
qed

text \<open>
  The claim as the specification states it fails: for a line without selling plan the
  property \<^verbatim>\<open>sellingPlanId\<close> is not omitted, it is among the properties written and
  holds \<^verbatim>\<open>null\<close>; and a line whose identifier is \<^verbatim>\<open>{"toString": 1}\<close> has no
  normalized line at all.
\<close>

theorem sellingPlanId_null_not_omitted:
  "normalize_line demo_platform (JObj [(''id'', JNum (Fin 12345))])
     = Inr \<lparr>quantity = Fin 1, merchandiseId = ''gid://shopify/ProductVariant/12345'',
            sellingPlanId = JNull, attributes = []\<rparr>
   \<and> written_fields (line_object \<lparr>quantity = Fin 1,
         merchandiseId = ''gid://shopify/ProductVariant/12345'',
         sellingPlanId = JNull, attributes = []\<rparr>)
     = [''quantity'', ''merchandiseId'', ''sellingPlanId'', ''attributes'']
   \<and> normalize_line demo_platform (JObj [(''id'', JObj [(''toString'', JNum (Fin 1))])])
     = Inl no_primitive"
  using to_string_12345 [of demo_platform]
  by (simp add: normalize_line_def line_attrs_def get_opt_def toVariantGID_def
      written_fields_def line_object_def)

subsection \<open>Health probe and shop selection\<close>

lemma present_iff: "present x \<longleftrightarrow> x \<noteq> None \<and> x \<noteq> Some []"
  by (cases x) (simp_all add: present_def)

text \<open>
  Claim C7. healthCheck has no way to throw: every path returns a boolean. When the
  domain or the access token of the shop is absent or empty it returns false and the
  log of calls is unchanged (no network call). Otherwise it makes exactly one call, and
  its result is true exactly when that call resolves with a response whose \<^verbatim>\<open>ok\<close> is
  true; a rejected call and a response that is not \<^verbatim>\<open>ok\<close> both give false.
\<close>

theorem healthCheck_total:
  "healthCheck en net calls k =
     (if domain (SHOPS en k) \<in> {None, Some []} \<or> sfApi (SHOPS en k) \<in> {None, Some []}
      then (False, calls)
      else ((case net (length calls) (health_request (SHOPS en k)) of
               Rejected e \<Rightarrow> False
             | Resolved r \<Rightarrow> ok r),
            calls @ [health_request (SHOPS en k)]))"
  by (auto simp: healthCheck_def fetch_def present_iff Let_def split: fetch_outcome.splits)

theorem healthCheck_total_witness:
  "healthCheck demo_env (answering JNull) [] B = (False, [])
   \<and> healthCheck demo_env (answering JNull) [] C = (True, [health_request (SHOPS demo_env C)])
   \<and> healthCheck demo_env unreachable [] C = (False, [health_request (SHOPS demo_env C)])"
proof -
  have b: "healthCheck demo_env (answering JNull) [] B = (False, [])"
    using healthCheck_total [of demo_env "answering JNull" "[]" B]
    by (simp add: demo_env_def)
  have c: "healthCheck demo_env (answering JNull) [] C = (True, [health_request (SHOPS demo_env C)])"
    using healthCheck_total [of demo_env "answering JNull" "[]" C]
    by (simp add: demo_env_def or_empty_def answering_def health_request_def)
  have u: "healthCheck demo_env unreachable [] C = (False, [health_request (SHOPS demo_env C)])"
    using healthCheck_total [of demo_env unreachable "[]" C]
    by (simp add: demo_env_def or_empty_def unreachable_def)
  from b c u show ?thesis
    by simp
qed

lemma pickTargetShop_fst:
  "fst (pickTargetShop en net calls) =
     (if fst (healthCheck en net calls B) then Some B
      else if fst (healthCheck en net (snd (healthCheck en net calls B)) C) then Some C
      else None)"
  by (auto simp: pickTargetShop_def split: prod.splits bool.splits)

lemma bridge_no_shop:
  assumes "read_body P b = Inr payload"
    and "is_array (get_opt payload ''lines'')"
    and "truthy (get_prop (get_opt payload ''lines'') ''length'')"
    and "fst (pickTargetShop en net calls) = None"
  shows "fst (bridge P en net calls b) = Json 503 ''Aucun shop disponible''"
  using assms by (cases "pickTargetShop en net calls") (simp add: bridge_def)

lemma demo_order_lines:
  "read_body P demo_order = Inr demo_order
   \<and> is_array (get_opt demo_order ''lines'')
   \<and> truthy (get_prop (get_opt demo_order ''lines'') ''length'')"
  by (simp add: read_body_def demo_order_def get_opt_def)

text \<open>
  Claim C6. Whatever the two probes report (\<open>pb\<close> for shop B, \<open>pc\<close> for shop C, probed
  after B), pickTargetShop returns the first shop of the declared order B, C whose probe
  is true, and none when no probe is true. With B unhealthy and C healthy it returns C.
  When it returns none, a request with a non-empty array of lines is answered with 503
  and \<^verbatim>\<open>Aucun shop disponible\<close>.
\<close>

theorem pickTargetShop_first_healthy:
  assumes "fst (healthCheck en net calls B) = pb"
    and "fst (healthCheck en net (snd (healthCheck en net calls B)) C) = pc"
  shows "fst (pickTargetShop en net calls)
           = first_healthy (\<lambda>k. case k of B \<Rightarrow> pb | C \<Rightarrow> pc) shop_priority
         \<and> (\<not> pb \<and> pc \<longrightarrow> fst (pickTargetShop en net calls) = Some C)
         \<and> (\<not> pb \<and> \<not> pc \<longrightarrow> fst (pickTargetShop en net calls) = None)
         \<and> (\<not> pb \<and> \<not> pc \<and> read_body P b = Inr payload \<and> is_array (get_opt payload ''lines'')
              \<and> truthy (get_prop (get_opt payload ''lines'') ''length'')
              \<longrightarrow> fst (bridge P en net calls b) = Json 503 ''Aucun shop disponible'')"
proof -
  have pick: "fst (pickTargetShop en net calls) = (if pb then Some B else if pc then Some C else None)"
    using assms by (simp add: pickTargetShop_fst)
  have "first_healthy (\<lambda>k. case k of B \<Rightarrow> pb | C \<Rightarrow> pc) shop_priority
          = (if pb then Some B else if pc then Some C else None)"
    by (simp add: first_healthy_def shop_priority_def)
  with pick have 1: "fst (pickTargetShop en net calls)
           = first_healthy (\<lambda>k. case k of B \<Rightarrow> pb | C \<Rightarrow> pc) shop_priority"
    by simp
  have 2: "\<not> pb \<and> pc \<longrightarrow> fst (pickTargetShop en net calls) = Some C"
    using pick by simp
  have 3: "\<not> pb \<and> \<not> pc \<longrightarrow> fst (pickTargetShop en net calls) = None"
    using pick by simp
  have 4: "\<not> pb \<and> \<not> pc \<and> read_body P b = Inr payload \<and> is_array (get_opt payload ''lines'')
              \<and> truthy (get_prop (get_opt payload ''lines'') ''length'')
              \<longrightarrow> fst (bridge P en net calls b) = Json 503 ''Aucun shop disponible''"
    using 3 bridge_no_shop [of P b payload en net calls] by blast
  from 1 2 3 4 show ?thesis
    by blast
qed

theorem pickTargetShop_first_healthy_witness:
  "fst (healthCheck demo_env (answering JNull) [] B) = False
   \<and> fst (healthCheck demo_env (answering JNull) (snd (healthCheck demo_env (answering JNull) [] B)) C) = True
   \<and> fst (pickTargetShop demo_env (answering JNull) []) = Some C
   \<and> fst (healthCheck demo_env unreachable (snd (healthCheck demo_env unreachable [] B)) C) = False
   \<and> fst (pickTargetShop demo_env unreachable []) = None
   \<and> fst (bridge demo_platform demo_env unreachable [] demo_order) = Json 503 ''Aucun shop disponible''"
proof -
  have b: "healthCheck demo_env net [] B = (False, [])" for net
    by (simp add: healthCheck_def demo_env_def present_def)
  have c: "healthCheck demo_env (answering JNull) [] C = (True, [health_request (SHOPS demo_env C)])"
    by (simp add: healthCheck_def demo_env_def or_empty_def present_def fetch_def answering_def health_request_def)
  have u: "healthCheck demo_env unreachable [] C = (False, [health_request (SHOPS demo_env C)])"
    by (simp add: healthCheck_def demo_env_def or_empty_def present_def fetch_def unreachable_def)
  have pb: "fst (healthCheck demo_env net [] B) = False" for net
    by (simp add: b)
  have pc: "fst (healthCheck demo_env (answering JNull) (snd (healthCheck demo_env (answering JNull) [] B)) C) = True"
    by (simp add: b c)
  have pu: "fst (healthCheck demo_env unreachable (snd (healthCheck demo_env unreachable [] B)) C) = False"
    by (simp add: b u)
  have 1: "fst (pickTargetShop demo_env (answering JNull) []) = Some C"
    using pickTargetShop_first_healthy [OF pb pc] by blast
  have 2: "fst (pickTargetShop demo_env unreachable []) = None"
    using pickTargetShop_first_healthy [OF pb pu] by blast
  have 3: "fst (bridge demo_platform demo_env unreachable [] demo_order) = Json 503 ''Aucun shop disponible''"
    using pickTargetShop_first_healthy [where P = demo_platform and b = demo_order
          and payload = demo_order, OF pb pu]
      demo_order_lines [of demo_platform]
    by blast
  from pb pc pu 1 2 3 show ?thesis
    by simp
qed

subsection \<open>What createCheckout makes of the backend's answer\<close>

lemma bridge_accepted:
  assumes "accepted P en net calls b payload target calls1"
  shows "fst (bridge P en net calls b) =
           (case fst (createCheckout P en net calls1 target payload) of
              Inl e \<Rightarrow> internal_error e
            | Inr u \<Rightarrow>
                (case to_string P u of
                   Inl e \<Rightarrow> internal_error e
                 | Inr loc \<Rightarrow> Redirect 302 loc))"
  using assms
  by (cases "createCheckout P en net calls1 target payload")
     (auto simp: accepted_def bridge_def redirect_def split: sum.splits)

lemma createCheckout_answered:
  assumes "answered P en net calls1 target payload data"
  shows "fst (createCheckout P en net calls1 target payload) = read_result P data"
proof -
  from assms obtain vars where v: "build_variables P payload = Inr vars"
    by (cases "build_variables P payload") (simp_all add: answered_def)
  with assms obtain r where r: "net (length calls1) (cart_request (SHOPS en target) vars) = Resolved r"
    and j: "json r = Inr data"
    by (cases "net (length calls1) (cart_request (SHOPS en target) vars)") (simp_all add: answered_def)
  show ?thesis
    by (simp add: createCheckout_def v fetch_def r j)
qed

lemma read_result_no_errors:
  assumes "nullish (userErrors data) \<or> userErrors data = JArr []"
  shows "read_result P data =
           (if truthy (checkoutUrl data) then Inr (checkoutUrl data)
            else Inl (Error ''checkoutUrl introuvable''))"
  using assms by (auto simp: read_result_def get_opt_def)







lemma demo_accepted:
  "accepted demo_platform demo_env (answering d) [] demo_order demo_order C
     [health_request (SHOPS demo_env C)]"
  by (simp add: accepted_def demo_order_lines pickTargetShop_def healthCheck_def demo_env_def
      or_empty_def present_def fetch_def answering_def health_request_def)

lemma demo_variables:
  "build_variables demo_platform demo_order =
     Inr \<lparr>var_lines = [\<lparr>quantity = Fin 1, merchandiseId = ''gid://shopify/ProductVariant/12345'',
                         sellingPlanId = JNull,
                         attributes = [(''color'', ''red''), (''size'', ''42''), (''active'', ''true'')]\<rparr>],
          var_attributes = [], var_note = []\<rparr>"
  using to_string_12345 [of demo_platform] to_string_42 [of demo_platform]
  by (simp add: build_variables_def cart_lines_def cart_attributes_def cart_note_def
      demo_order_def demo_line_def demo_properties_def normalize_line_def line_attrs_def
      get_opt_def toVariantGID_def)

lemma demo_answered:
  "answered demo_platform demo_env (answering d) [health_request (SHOPS demo_env C)] C demo_order d"
  by (simp add: answered_def demo_variables answering_def cart_request_def)

lemma cart_answer_fields:
  "userErrors (cart_answer cart errs) = errs"
  "checkoutUrl (cart_answer cart errs) = get_opt cart ''checkoutUrl''"
  by (simp_all add: userErrors_def checkoutUrl_def cart_answer_def get_opt_def)




text \<open>
  Claim C9. Take a request that is accepted and whose cart mutation the backend answers
  without user errors (none, or an empty list) and without a checkout URL. createCheckout
  throws the Error \<^verbatim>\<open>checkoutUrl introuvable\<close>, and the handler answers with a 500 that
  carries this message; it does not redirect.
\<close>

theorem missing_checkoutUrl_response:
  assumes "accepted P en net calls b payload target calls1"
    and "answered P en net calls1 target payload data"
    and "nullish (userErrors data) \<or> userErrors data = JArr []"
    and "nullish (checkoutUrl data)"
  shows "fst (createCheckout P en net calls1 target payload) = Inl (Error ''checkoutUrl introuvable'')
         \<and> fst (bridge P en net calls b) = Json 500 ''checkoutUrl introuvable''
         \<and> (\<forall>st u. fst (bridge P en net calls b) \<noteq> Redirect st u)"
proof -
  have "\<not> truthy (checkoutUrl data)"
    using assms(4) by (cases "checkoutUrl data") simp_all
  then have c: "fst (createCheckout P en net calls1 target payload) = Inl (Error ''checkoutUrl introuvable'')"
    using createCheckout_answered [OF assms(2)] read_result_no_errors [OF assms(3)] by simp
  then have "fst (bridge P en net calls b) = Json 500 ''checkoutUrl introuvable''"
    using bridge_accepted [OF assms(1)] by (simp add: internal_error_def)
  with c show ?thesis
    by simp
qed

theorem missing_checkoutUrl_response_witness:
  "answered demo_platform demo_env (answering (cart_answer (JObj []) (JArr [])))
     [health_request (SHOPS demo_env C)] C demo_order (cart_answer (JObj []) (JArr []))
   \<and> fst (bridge demo_platform demo_env (answering (cart_answer (JObj []) (JArr []))) [] demo_order)
       = Json 500 ''checkoutUrl introuvable''"
proof -
  let ?d = "cart_answer (JObj []) (JArr [])"
  have "fst (bridge demo_platform demo_env (answering ?d) [] demo_order)
          = Json 500 ''checkoutUrl introuvable''"
    using missing_checkoutUrl_response [OF demo_accepted demo_answered, of ?d]
    by (simp add: cart_answer_fields get_opt_def)
  with demo_answered [of ?d] show ?thesis
    by simp
qed





end
